theory Spec2Isabelle
  imports Main "HOL-Library.Sublist"
begin

section \<open>Strings\<close>

text \<open>
  A Python \<open>str\<close> is modelled as a HOL \<open>string\<close> whose characters are the code points
  below 256. \<open>str.lower\<close> maps the capital letters of that range to their small letters:
  \<open>A\<close>..\<open>Z\<close>, and the Latin-1 capitals 192..222 except the multiplication sign 215; every
  other character is left as it is. The operator \<open>in\<close> between two strings is contiguous
  containment, \<open>sublist\<close>.
\<close>

definition lower_char :: "char \<Rightarrow> char" where
  "lower_char c =
     (let n = (of_char c :: nat)
      in if (65 \<le> n \<and> n \<le> 90) \<or> (192 \<le> n \<and> n \<le> 222 \<and> n \<noteq> 215)
         then char_of (n + 32) else c)"

definition str_lower :: "string \<Rightarrow> string" where
  "str_lower s = map lower_char s"

section \<open>The affiliation classifier\<close>

text \<open>
  \<^verbatim>\<open>
  def is_company_affiliation(self, affiliation: str) -> bool:
      academic_terms = {'university', 'college', 'institute', 'laboratory', 'school', 'dept', 'department'}
      affiliation_lower = affiliation.lower()
      return not any(term in affiliation_lower for term in academic_terms)
  \<close>
\<close>

definition academic_terms :: "string set" where
  "academic_terms =
     {''university'', ''college'', ''institute'', ''laboratory'', ''school'', ''dept'',
      ''department''}"

definition is_company_affiliation :: "string \<Rightarrow> bool" where
  "is_company_affiliation affiliation =
     (let affiliation_lower = str_lower affiliation
      in \<not> (\<exists>term \<in> academic_terms. sublist term affiliation_lower))"

section \<open>More string operations\<close>

text \<open>
  \<open>str.strip()\<close> removes the white space at both ends; the white space characters below
  256 are the ones \<open>str.isspace\<close> accepts there: 9 to 13, 28 to 32, the next-line
  character 133 and the no-break space 160.
\<close>

definition is_space :: "char \<Rightarrow> bool" where
  "is_space c = ((of_char c :: nat) \<in> {9, 10, 11, 12, 13, 28, 29, 30, 31, 32, 133, 160})"

definition str_strip :: "string \<Rightarrow> string" where
  "str_strip s = rev (dropWhile is_space (rev (dropWhile is_space s)))"

text \<open>\<open>sep.join(xs)\<close>\<close>

fun str_join :: "string \<Rightarrow> string list \<Rightarrow> string" where
  "str_join sep [] = []"
| "str_join sep [x] = x"
| "str_join sep (x # y # ys) = x @ sep @ str_join sep (y # ys)"

text \<open>
  \<open>s.split(sep)\<close> scans from the left and cuts at every occurrence of the separator;
  \<open>cur\<close> is the piece collected so far. An empty separator raises \<open>ValueError\<close>.
\<close>

function split_py :: "string \<Rightarrow> string \<Rightarrow> string \<Rightarrow> string list" where
  "split_py sep cur [] = [cur]"
| "split_py sep cur (c # cs) =
     (if sep \<noteq> [] \<and> prefix sep (c # cs)
      then cur # split_py sep [] (drop (length sep) (c # cs))
      else split_py sep (cur @ [c]) cs)"
  by pat_completeness auto
termination
  by (relation "measure (\<lambda>(sep, cur, s). length s)") auto

datatype error =
    KeyError string
  | IndexError
  | ValueError
  | UnboundLocalError string
  | OSError string
  | ExternalError string

definition str_split :: "string \<Rightarrow> string \<Rightarrow> error + string list" where
  "str_split sep s = (if sep = [] then Inl ValueError else Inr (split_py sep [] s))"

text \<open>\<open>xs[0]\<close>\<close>

definition first_item :: "'a list \<Rightarrow> error + 'a" where
  "first_item xs = (case xs of [] \<Rightarrow> Inl IndexError | x # _ \<Rightarrow> Inr x)"

text \<open>\<open>d.get(key, default)\<close> on an optional key\<close>

definition dict_get :: "'a option \<Rightarrow> 'a \<Rightarrow> 'a" where
  "dict_get v d = (case v of None \<Rightarrow> d | Some x \<Rightarrow> x)"


text \<open>\<open>str(e)\<close> of an exception; a \<open>KeyError\<close> shows the key quoted.\<close>

definition error_str :: "error \<Rightarrow> string" where
  "error_str e =
     (case e of
        KeyError k \<Rightarrow> [CHR 0x27] @ k @ [CHR 0x27]
      | IndexError \<Rightarrow> ''list index out of range''
      | ValueError \<Rightarrow> ''empty separator''
      | UnboundLocalError v \<Rightarrow>
          ''cannot access local variable '' @ [CHR 0x27] @ v @ [CHR 0x27]
            @ '' where it is not associated with a value''
      | OSError m \<Rightarrow> m
      | ExternalError m \<Rightarrow> m)"

section \<open>Raw records\<close>

text \<open>
  The structures \<open>Entrez.read\<close> returns, with the keys \<open>process_papers\<close> reads. A key that
  may be missing is an optional field: a subscript \<open>d[k]\<close> on a missing key raises
  \<open>KeyError\<close>, \<open>d.get(k, default)\<close> gives the default. A location identifier is a string
  element: its text and its XML attributes.
\<close>

record affiliation_info =
  Affiliation :: "string option"

record author =
  ForeName :: "string option"
  LastName :: "string option"
  AffiliationInfo :: "affiliation_info list option"

record pub_date =
  Year :: "string option"
  Month :: "string option"
  Day :: "string option"

record journal_issue =
  PubDate :: "pub_date option"

record journal =
  JournalIssue :: "journal_issue option"

record eloc =
  attributes :: "string \<rightharpoonup> string"
  str_value :: string

record article =
  ArticleTitle :: "string option"
  Journal :: "journal option"
  AuthorList :: "author list option"
  ELocationID :: "eloc list option"

record medline_citation =
  PMID :: "string option"
  Article :: "article option"

record paper =
  MedlineCitation :: "medline_citation option"

record papers =
  PubmedArticle :: "paper list option"

text \<open>The output row: a dictionary with six fixed keys.\<close>

record row =
  PubmedID :: string
  Title :: string
  Publication_Date :: string
  Non_academic_Authors :: string
  Company_Affiliations :: string
  Corresponding_Author_Email :: string

section \<open>The world: files, console and log\<close>

datatype level = DEBUG | INFO | ERROR

record world =
  files :: "string \<rightharpoonup> string"
  writable :: "string \<Rightarrow> bool"
  stdout :: "string list"
  log_lines :: "(level \<times> string) list"

text \<open>
  \<^verbatim>\<open>
  def __init__(self, query: str, debug: bool = False):
      self.query = query
      self.debug = debug
      self.setup_logging()

  def setup_logging(self) -> None:
      level = logging.DEBUG if self.debug else logging.INFO
      logging.basicConfig(level=level, format='%(asctime)s - %(levelname)s - %(message)s')
  \<close>
  The log level is the fetcher's \<open>debug\<close> flag: a debug message is recorded only when the
  flag is set. Its text is built before the call in either case.
\<close>

record paper_fetcher =
  query :: string
  debug :: bool

definition logging_debug :: "paper_fetcher \<Rightarrow> string \<Rightarrow> world \<Rightarrow> world" where
  "logging_debug self msg w =
     (if debug self then w\<lparr>log_lines := log_lines w @ [(DEBUG, msg)]\<rparr> else w)"

definition logging_info :: "string \<Rightarrow> world \<Rightarrow> world" where
  "logging_info msg w = w\<lparr>log_lines := log_lines w @ [(INFO, msg)]\<rparr>"


section \<open>The record projector\<close>

text \<open>
  \<^verbatim>\<open>
  pub_date = article.get("Journal", {}).get("JournalIssue", {}).get("PubDate", {})
  date_str = f"{pub_date.get('Year', '')}-{pub_date.get('Month', '01')}-{pub_date.get('Day', '01')}"
  \<close>
\<close>

definition pub_date_of :: "article \<Rightarrow> pub_date" where
  "pub_date_of article =
     dict_get
       (PubDate (dict_get (JournalIssue (dict_get (Journal article) \<lparr>JournalIssue = None\<rparr>))
          \<lparr>PubDate = None\<rparr>))
       \<lparr>Year = None, Month = None, Day = None\<rparr>"

definition date_str :: "pub_date \<Rightarrow> string" where
  "date_str pub_date =
     dict_get (Year pub_date) '''' @ ''-'' @ dict_get (Month pub_date) ''01'' @ ''-''
       @ dict_get (Day pub_date) ''01''"

text \<open>
  \<^verbatim>\<open>
  for author in authors:
      aff_list = author.get("AffiliationInfo", [])
      if not aff_list:
          continue
      author_aff = aff_list[0].get("Affiliation", "")
      if self.is_company_affiliation(author_aff):
          name = f"{author.get('ForeName', '')} {author.get('LastName', '')}".strip()
          company_authors.append(name)
          affiliations.append(author_aff.split(',')[0])
  \<close>
\<close>

definition display_name :: "author \<Rightarrow> string" where
  "display_name author =
     str_strip (dict_get (ForeName author) '''' @ '' '' @ dict_get (LastName author) '''')"

fun author_loop ::
  "author list \<Rightarrow> string list \<times> string list \<Rightarrow> error + (string list \<times> string list)" where
  "author_loop [] (company_authors, affiliations) = Inr (company_authors, affiliations)"
| "author_loop (author # authors) (company_authors, affiliations) =
     (case dict_get (AffiliationInfo author) [] of
        [] \<Rightarrow> author_loop authors (company_authors, affiliations)
      | info # _ \<Rightarrow>
          (let author_aff = dict_get (Affiliation info) ''''
           in if is_company_affiliation author_aff
              then (let name = display_name author
                    in case str_split '','' author_aff of
                         Inl e \<Rightarrow> Inl e
                       | Inr parts \<Rightarrow>
                           (case first_item parts of
                              Inl e \<Rightarrow> Inl e
                            | Inr seg \<Rightarrow>
                                author_loop authors
                                  (company_authors @ [name], affiliations @ [seg])))
              else author_loop authors (company_authors, affiliations)))"

text \<open>
  \<^verbatim>\<open>
  email = ""
  if "ELocationID" in article:
      for eloc in article["ELocationID"]:
          if "ValidYN" in eloc.attributes and eloc.attributes["ValidYN"] == "Y":
              email = str(eloc)
  \<close>
\<close>

definition valid_eloc :: "eloc \<Rightarrow> bool" where
  "valid_eloc e = (case attributes e ''ValidYN'' of None \<Rightarrow> False | Some v \<Rightarrow> v = ''Y'')"

fun eloc_loop :: "eloc list \<Rightarrow> string \<Rightarrow> string" where
  "eloc_loop [] email = email"
| "eloc_loop (e # es) email = eloc_loop es (if valid_eloc e then str_value e else email)"

definition email_of :: "article \<Rightarrow> string" where
  "email_of article =
     (case ELocationID article of None \<Rightarrow> '''' | Some elocs \<Rightarrow> eloc_loop elocs '''')"

text \<open>
  The body of the \<open>try\<close> for one record. Its first result is the value the body assigned
  to the local variable \<open>pubmed_id\<close>, if it got that far; the second is the exception it
  raised, or the row it appended to \<open>results\<close>, if any.
\<close>

definition try_body :: "paper \<Rightarrow> string option \<times> (error + row option)" where
  "try_body paper =
     (case MedlineCitation paper of
        None \<Rightarrow> (None, Inl (KeyError ''MedlineCitation''))
      | Some medline \<Rightarrow>
     (case Article medline of
        None \<Rightarrow> (None, Inl (KeyError ''Article''))
      | Some article \<Rightarrow>
     (case PMID medline of
        None \<Rightarrow> (None, Inl (KeyError ''PMID''))
      | Some pubmed_id \<Rightarrow>
     (case ArticleTitle article of
        None \<Rightarrow> (Some pubmed_id, Inl (KeyError ''ArticleTitle''))
      | Some title \<Rightarrow>
     (case author_loop (dict_get (AuthorList article) []) ([], []) of
        Inl e \<Rightarrow> (Some pubmed_id, Inl e)
      | Inr (company_authors, affiliations) \<Rightarrow>
          (Some pubmed_id,
           Inr (if company_authors \<noteq> []
                then Some \<lparr>PubmedID = pubmed_id,
                           Title = title,
                           Publication_Date = date_str (pub_date_of article),
                           Non_academic_Authors = str_join ''; '' company_authors,
                           Company_Affiliations = str_join ''; '' affiliations,
                           Corresponding_Author_Email = email_of article\<rparr>
                else None)))))))"

text \<open>
  \<^verbatim>\<open>
  results = []
  for paper in papers["PubmedArticle"]:
      try:
          ...
      except Exception as e:
          logging.debug(f"Error processing paper {pubmed_id}: {str(e)}")
          continue
  return results
  \<close>
  \<open>pubmed_id\<close> is a local variable of the function: it keeps the value of the last record
  that assigned it, and it is unbound until a record has. The handler reads it to build
  its message; reading it while unbound raises \<open>UnboundLocalError\<close> inside the handler,
  which no \<open>try\<close> encloses.
\<close>

fun paper_loop ::
  "paper_fetcher \<Rightarrow> paper list \<Rightarrow> string option \<Rightarrow> row list \<Rightarrow> world
     \<Rightarrow> (error + row list) \<times> world" where
  "paper_loop self [] pubmed_id results w = (Inr results, w)"
| "paper_loop self (paper # rest) pubmed_id results w =
     (let (assigned, outcome) = try_body paper;
          pubmed_id' = (case assigned of None \<Rightarrow> pubmed_id | Some v \<Rightarrow> Some v)
      in case outcome of
           Inr None \<Rightarrow> paper_loop self rest pubmed_id' results w
         | Inr (Some r) \<Rightarrow> paper_loop self rest pubmed_id' (results @ [r]) w
         | Inl e \<Rightarrow>
             (case pubmed_id' of
                None \<Rightarrow> (Inl (UnboundLocalError ''pubmed_id''), w)
              | Some v \<Rightarrow>
                  paper_loop self rest pubmed_id' results
                    (logging_debug self
                       (''Error processing paper '' @ v @ '': '' @ error_str e) w)))"

definition process_papers ::
  "paper_fetcher \<Rightarrow> papers \<Rightarrow> world \<Rightarrow> (error + row list) \<times> world" where
  "process_papers self papers w =
     (case PubmedArticle papers of
        None \<Rightarrow> (Inl (KeyError ''PubmedArticle''), w)
      | Some ps \<Rightarrow> paper_loop self ps None [] w)"

section \<open>Search and fetch\<close>




section \<open>The sink\<close>

text \<open>
  \<^verbatim>\<open>
  def save_to_csv(self, results: List[Dict], filename: Optional[str] = None) -> None:
      if not results:
          logging.info("No results to save")
          return
      headers = [...]
      if filename:
          with open(filename, 'w', newline='', encoding='utf-8') as f:
              writer = csv.DictWriter(f, fieldnames=headers)
              writer.writeheader()
              writer.writerows(results)
          logging.info(f"Results saved to {filename}")
      else:
          print(",".join(headers))
          for row in results:
              print(",".join(f'"{row.get(h, "")}"' for h in headers))
  \<close>
  The text the \<open>csv\<close> module writes for a header and rows is the parameter \<open>csv_text\<close>.
  Opening a path that is not writable raises \<open>OSError\<close>.
\<close>

definition headers :: "string list" where
  "headers =
     [''PubmedID'', ''Title'', ''Publication Date'', ''Non-academic Author(s)'',
      ''Company Affiliation(s)'', ''Corresponding Author Email'']"

definition row_get :: "row \<Rightarrow> string \<Rightarrow> string \<Rightarrow> string" where
  "row_get r h d =
     (if h = ''PubmedID'' then PubmedID r
      else if h = ''Title'' then Title r
      else if h = ''Publication Date'' then Publication_Date r
      else if h = ''Non-academic Author(s)'' then Non_academic_Authors r
      else if h = ''Company Affiliation(s)'' then Company_Affiliations r
      else if h = ''Corresponding Author Email'' then Corresponding_Author_Email r
      else d)"

definition save_to_csv ::
  "(string list \<Rightarrow> row list \<Rightarrow> string) \<Rightarrow> row list \<Rightarrow> string option \<Rightarrow> world
     \<Rightarrow> (error + unit) \<times> world" where
  "save_to_csv csv_text results filename w =
     (if results = [] then (Inr (), logging_info ''No results to save'' w)
      else if filename \<noteq> None \<and> filename \<noteq> Some []
      then (let f = the filename
            in if writable w f
               then (Inr (),
                     logging_info (''Results saved to '' @ f)
                       (w\<lparr>files := (files w)(f \<mapsto> csv_text headers results)\<rparr>))
               else (Inl (OSError f), w))
      else (Inr (),
            w\<lparr>stdout := stdout w @ [str_join '','' headers]
                 @ map (\<lambda>r. str_join '',''
                          (map (\<lambda>h. [CHR 0x22] @ row_get r h '''' @ [CHR 0x22]) headers))
                     results\<rparr>))"



section \<open>Notions used in the statements\<close>

text \<open>
  What the projector reads of a record: its article, its author list, the first listed
  affiliation of an author (none when the author has no affiliation entry; the empty
  string when the first entry has no \<open>Affiliation\<close> key), and whether the author
  qualifies, that is, the classifier marks that first affiliation non-academic.
\<close>

definition article_of :: "paper \<Rightarrow> article option" where
  "article_of p = (case MedlineCitation p of None \<Rightarrow> None | Some m \<Rightarrow> Article m)"

definition authors_of :: "paper \<Rightarrow> author list" where
  "authors_of p = (case article_of p of None \<Rightarrow> [] | Some art \<Rightarrow> dict_get (AuthorList art) [])"

definition first_affiliation :: "author \<Rightarrow> string option" where
  "first_affiliation a =
     (case dict_get (AffiliationInfo a) [] of
        [] \<Rightarrow> None
      | info # _ \<Rightarrow> Some (dict_get (Affiliation info) ''''))"

definition qualifies :: "author \<Rightarrow> bool" where
  "qualifies a =
     (case first_affiliation a of None \<Rightarrow> False | Some aff \<Rightarrow> is_company_affiliation aff)"

text \<open>The leading segment of an affiliation: the text before its first comma.\<close>

definition leading_segment :: "string \<Rightarrow> string" where
  "leading_segment s = takeWhile (\<lambda>c. c \<noteq> CHR '','') s"

definition segment_of :: "author \<Rightarrow> string" where
  "segment_of a = (case first_affiliation a of None \<Rightarrow> [] | Some aff \<Rightarrow> leading_segment aff)"

text \<open>The row the \<open>try\<close> body appends for a record, if it appends one.\<close>

definition emitted_row :: "paper \<Rightarrow> row option" where
  "emitted_row p = (case snd (try_body p) of Inr (Some r) \<Rightarrow> Some r | _ \<Rightarrow> None)"

text \<open>A record is complete when the four keys the body subscripts are present.\<close>

definition complete :: "paper \<Rightarrow> bool" where
  "complete p =
     (case MedlineCitation p of
        None \<Rightarrow> False
      | Some m \<Rightarrow>
          PMID m \<noteq> None
          \<and> (case Article m of None \<Rightarrow> False | Some art \<Rightarrow> ArticleTitle art \<noteq> None))"

section \<open>Example inputs\<close>

definition ex_fetcher :: paper_fetcher where
  "ex_fetcher = \<lparr>query = ''oncology'', debug = True\<rparr>"

definition ex_world :: world where
  "ex_world = \<lparr>files = Map.empty, writable = (\<lambda>_. True), stdout = [], log_lines = []\<rparr>"

definition mk_author :: "string \<Rightarrow> string \<Rightarrow> string list \<Rightarrow> author" where
  "mk_author fore family affs =
     \<lparr>ForeName = Some fore, LastName = Some family,
      AffiliationInfo = Some (map (\<lambda>a. \<lparr>Affiliation = Some a\<rparr>) affs)\<rparr>"

definition mk_paper :: "string \<Rightarrow> string option \<Rightarrow> author list \<Rightarrow> eloc list option \<Rightarrow> paper" where
  "mk_paper pmid title authors elocs =
     \<lparr>MedlineCitation = Some
        \<lparr>PMID = Some pmid,
         Article = Some
           \<lparr>ArticleTitle = title, Journal = None, AuthorList = Some authors,
            ELocationID = elocs\<rparr>\<rparr>\<rparr>"

text \<open>A record with one company author and one university author, and two valid
  location identifiers.\<close>

definition ex_company :: paper where
  "ex_company =
     mk_paper ''101'' (Some ''A trial'')
       [mk_author ''Ann'' ''Lee'' [''Acme Corp, Berlin'', ''Harvard University''],
        mk_author ''Bob'' ''Ray'' [''Dept of Physics, Yale'']]
       (Some [\<lparr>attributes = [''ValidYN'' \<mapsto> ''Y''], str_value = ''10.1/a''\<rparr>,
              \<lparr>attributes = [''ValidYN'' \<mapsto> ''N''], str_value = ''10.1/b''\<rparr>,
              \<lparr>attributes = [''ValidYN'' \<mapsto> ''Y''], str_value = ''10.1/c''\<rparr>])"

definition ex_company_row :: row where
  "ex_company_row =
     \<lparr>PubmedID = ''101'', Title = ''A trial'', Publication_Date = ''-01-01'',
      Non_academic_Authors = ''Ann Lee'', Company_Affiliations = ''Acme Corp'',
      Corresponding_Author_Email = ''10.1/c''\<rparr>"

text \<open>A record whose only author is at a university.\<close>

definition ex_academic :: paper where
  "ex_academic =
     mk_paper ''102'' (Some ''A survey'') [mk_author ''Cy'' ''Orr'' [''School of Medicine'']] None"

text \<open>A record with a company author and no \<open>ArticleTitle\<close>.\<close>

definition ex_untitled :: paper where
  "ex_untitled = mk_paper ''103'' None [mk_author ''Dee'' ''Fox'' [''Acme Corp, Berlin'']] None"

text \<open>A record with no \<open>Article\<close>.\<close>

definition ex_no_article :: paper where
  "ex_no_article = \<lparr>MedlineCitation = Some \<lparr>PMID = Some ''104'', Article = None\<rparr>\<rparr>"

text \<open>A record with two company authors; the first affiliation has a semicolon before
  its first comma.\<close>

definition ex_two :: paper where
  "ex_two =
     mk_paper ''105'' (Some ''A study'')
       [mk_author ''John'' ''Doe'' [''Pfizer Inc; New York, USA''],
        mk_author ''Cy'' ''Orr'' [''School of Medicine''],
        mk_author ''Jane'' ''Roe'' [''Acme Corp, Berlin'']]
       None"

definition ex_two_row :: row where
  "ex_two_row =
     \<lparr>PubmedID = ''105'', Title = ''A study'', Publication_Date = ''-01-01'',
      Non_academic_Authors = ''John Doe; Jane Roe'',
      Company_Affiliations = ''Pfizer Inc; New York; Acme Corp'',
      Corresponding_Author_Email = ''''\<rparr>"

text \<open>A record with one company author whose affiliation has a semicolon before its
  first comma.\<close>

definition ex_solo :: paper where
  "ex_solo =
     mk_paper ''106'' (Some ''A report'')
       [mk_author ''John'' ''Doe'' [''Pfizer Inc; New York, USA'']] None"

definition ex_solo_row :: row where
  "ex_solo_row =
     \<lparr>PubmedID = ''106'', Title = ''A report'', Publication_Date = ''-01-01'',
      Non_academic_Authors = ''John Doe'',
      Company_Affiliations = ''Pfizer Inc; New York'',
      Corresponding_Author_Email = ''''\<rparr>"

text \<open>A record with two company authors and no semicolon in their names or
  affiliations.\<close>

definition ex_pair :: paper where
  "ex_pair =
     mk_paper ''107'' (Some ''A cohort'')
       [mk_author ''Ann'' ''Lee'' [''Acme Corp, Berlin''],
        mk_author ''Cy'' ''Orr'' [''School of Medicine''],
        mk_author ''Bo'' ''Ray'' [''Beta Inc, Oslo'']]
       None"

definition ex_pair_row :: row where
  "ex_pair_row =
     \<lparr>PubmedID = ''107'', Title = ''A cohort'', Publication_Date = ''-01-01'',
      Non_academic_Authors = ''Ann Lee; Bo Ray'',
      Company_Affiliations = ''Acme Corp; Beta Inc'',
      Corresponding_Author_Email = ''''\<rparr>"

text \<open>A record with a publication date that has a year and a month and no day.\<close>

definition ex_dated_pub_date :: pub_date where
  "ex_dated_pub_date = \<lparr>Year = Some ''2021'', Month = Some ''Mar'', Day = None\<rparr>"

definition ex_dated_article :: article where
  "ex_dated_article =
     \<lparr>ArticleTitle = Some ''A review'',
      Journal = Some \<lparr>JournalIssue = Some \<lparr>PubDate = Some ex_dated_pub_date\<rparr>\<rparr>,
      AuthorList = Some [mk_author ''Ann'' ''Lee'' [''Acme Corp, Berlin'']],
      ELocationID = None\<rparr>"

definition ex_dated :: paper where
  "ex_dated =
     \<lparr>MedlineCitation = Some \<lparr>PMID = Some ''108'', Article = Some ex_dated_article\<rparr>\<rparr>"

definition ex_dated_row :: row where
  "ex_dated_row =
     \<lparr>PubmedID = ''108'', Title = ''A review'', Publication_Date = ''2021-Mar-01'',
      Non_academic_Authors = ''Ann Lee'', Company_Affiliations = ''Acme Corp'',
      Corresponding_Author_Email = ''''\<rparr>"

section \<open>Properties of the classifier\<close>

lemma sublist_map_iff:
  "sublist k (map f s) \<longleftrightarrow> (\<exists>t. sublist t s \<and> map f t = k)"
proof
  assume "sublist k (map f s)"
  then obtain ps ss where "map f s = ps @ k @ ss"
    by (auto simp: sublist_def)
  then obtain ps' t ss' where "s = ps' @ t @ ss'" and "map f t = k"
    by (metis map_eq_append_conv)
  then show "\<exists>t. sublist t s \<and> map f t = k"
    by auto
next
  assume "\<exists>t. sublist t s \<and> map f t = k"
  then show "sublist k (map f s)"
    using map_mono_sublist by blast
qed

lemma academic_terms_lower:
  "k \<in> academic_terms \<Longrightarrow> str_lower k = k"
  unfolding academic_terms_def by (elim insertE emptyE; hypsubst; code_simp)

text \<open>
  Claim C1. The classifier returns false exactly when some keyword of the fixed set occurs
  in the affiliation as a case-insensitive substring, that is, when some contiguous piece
  of the affiliation equals a keyword once both are lower-cased; otherwise it returns true,
  and it returns true for the empty string.
\<close>

theorem is_company_affiliation_iff:
  "(is_company_affiliation s \<longleftrightarrow>
      \<not> (\<exists>k \<in> academic_terms. \<exists>t. sublist t s \<and> str_lower t = str_lower k))
   \<and> is_company_affiliation []
   \<and> academic_terms =
       {''university'', ''college'', ''institute'', ''laboratory'', ''school'', ''dept'',
        ''department''}"
proof -
  have "is_company_affiliation s \<longleftrightarrow>
      \<not> (\<exists>k \<in> academic_terms. \<exists>t. sublist t s \<and> str_lower t = k)"
    by (simp add: is_company_affiliation_def str_lower_def sublist_map_iff)
  moreover have "is_company_affiliation []"
    by (simp add: is_company_affiliation_def str_lower_def academic_terms_def)
  ultimately show ?thesis
    by (simp add: academic_terms_lower academic_terms_def [symmetric])
qed

theorem is_company_affiliation_iff_witness:
  "\<not> is_company_affiliation ''Harvard UNIVERSITY, Boston''
   \<and> (\<exists>k \<in> academic_terms. \<exists>t. sublist t ''Harvard UNIVERSITY, Boston''
         \<and> str_lower t = str_lower k)"
proof -
  have "\<not> is_company_affiliation ''Harvard UNIVERSITY, Boston''"
    by code_simp
  then show ?thesis
    using is_company_affiliation_iff [of "''Harvard UNIVERSITY, Boston''"] by blast
qed

section \<open>Splitting and joining\<close>

lemma split_py_single:
  "\<exists>rest. split_py [c] cur s = (cur @ takeWhile (\<lambda>x. x \<noteq> c) s) # rest"
proof (induction s arbitrary: cur)
  case Nil
  then show ?case by simp
next
  case (Cons a s)
  from Cons [of "cur @ [a]"] show ?case by auto
qed

lemma first_segment:
  "\<exists>parts. str_split '','' s = Inr parts \<and> first_item parts = Inr (leading_segment s)"
  using split_py_single [of "CHR '',''" "[]" s]
  by (auto simp: str_split_def first_item_def leading_segment_def)

lemma split_py_no_sep:
  "\<not> sublist [a, b] x \<Longrightarrow> split_py [a, b] cur x = [cur @ x]"
proof (induction x arbitrary: cur)
  case Nil
  then show ?case by simp
next
  case (Cons c cs)
  from Cons.prems have "\<not> prefix [a, b] (c # cs)" and "\<not> sublist [a, b] cs"
    by (auto simp: sublist_Cons_right)
  with Cons.IH [of "cur @ [c]"] show ?case by simp
qed

lemma split_py_entry:
  assumes "a \<noteq> b" and "\<not> sublist [a, b] x"
  shows "split_py [a, b] cur (x @ a # b # rest) = (cur @ x) # split_py [a, b] [] rest"
  using assms(2)
proof (induction x arbitrary: cur)
  case Nil
  then show ?case by simp
next
  case (Cons c cs)
  from Cons.prems have np: "\<not> prefix [a, b] (c # cs)" and ns: "\<not> sublist [a, b] cs"
    by (auto simp: sublist_Cons_right)
  have "\<not> prefix [a, b] (c # cs @ a # b # rest)"
    using np assms(1) by (cases cs) auto
  with Cons.IH [OF ns, of "cur @ [c]"] show ?case by simp
qed

lemma split_join_two:
  assumes "a \<noteq> b" and "\<not> sublist [a, b] x" and "\<not> sublist [a, b] y"
  shows "split_py [a, b] [] (x @ [a, b] @ y) = [x, y]"
  using split_py_entry [OF assms(1,2), of "[]" y] split_py_no_sep [OF assms(3), of "[]"]
  by simp

lemma split_join:
  assumes "a \<noteq> b"
  shows "xs \<noteq> [] \<Longrightarrow> \<forall>x \<in> set xs. \<not> sublist [a, b] x
           \<Longrightarrow> split_py [a, b] [] (str_join [a, b] xs) = xs"
proof (induction xs)
  case Nil
  then show ?case by simp
next
  case (Cons x xs)
  note ih = Cons.IH and pr = Cons.prems
  from pr have nx: "\<not> sublist [a, b] x"
    by simp
  show ?case
  proof (cases xs)
    case Nil
    then show ?thesis using split_py_no_sep [OF nx, of "[]"] by simp
  next
    case (Cons y ys)
    with ih pr have "split_py [a, b] [] (str_join [a, b] (y # ys)) = y # ys"
      by simp
    then show ?thesis
      using Cons split_py_entry [OF assms nx, of "[]" "str_join [a, b] (y # ys)"] by simp
  qed
qed

section \<open>The loops\<close>

lemma author_loop_eq:
  "author_loop as (ca, af) =
     Inr (ca @ map display_name (filter qualifies as), af @ map segment_of (filter qualifies as))"
proof (induction as arbitrary: ca af)
  case Nil
  then show ?case by simp
next
  case (Cons a as)
  show ?case
  proof (cases "dict_get (AffiliationInfo a) []")
    case Nil
    then show ?thesis using Cons.IH by (simp add: qualifies_def first_affiliation_def)
  next
    case (Cons info infos)
    obtain parts where "str_split '','' (dict_get (Affiliation info) '''') = Inr parts"
      and "first_item parts = Inr (leading_segment (dict_get (Affiliation info) ''''))"
      using first_segment by blast
    then show ?thesis using Cons Cons.IH
      by (simp add: qualifies_def first_affiliation_def segment_of_def Let_def)
  qed
qed

lemma eloc_loop_eq:
  "eloc_loop es email =
     (if filter valid_eloc es = [] then email else str_value (last (filter valid_eloc es)))"
  by (induction es arbitrary: email) auto

lemma eloc_loop_snoc:
  "eloc_loop (es @ [e]) email = (if valid_eloc e then str_value e else eloc_loop es email)"
  by (induction es arbitrary: email) auto

lemma emitted_row_eq:
  "emitted_row p =
     (case MedlineCitation p of None \<Rightarrow> None | Some m \<Rightarrow>
      case Article m of None \<Rightarrow> None | Some art \<Rightarrow>
      case PMID m of None \<Rightarrow> None | Some pid \<Rightarrow>
      case ArticleTitle art of None \<Rightarrow> None | Some t \<Rightarrow>
        if filter qualifies (dict_get (AuthorList art) []) = [] then None
        else Some \<lparr>PubmedID = pid, Title = t,
                   Publication_Date = date_str (pub_date_of art),
                   Non_academic_Authors =
                     str_join ''; '' (map display_name (filter qualifies (dict_get (AuthorList art) []))),
                   Company_Affiliations =
                     str_join ''; '' (map segment_of (filter qualifies (dict_get (AuthorList art) []))),
                   Corresponding_Author_Email = email_of art\<rparr>)"
  by (simp add: emitted_row_def try_body_def author_loop_eq split: option.splits)

lemma emitted_rowD:
  assumes "emitted_row p = Some r"
  shows "\<exists>m art pid t.
           MedlineCitation p = Some m \<and> Article m = Some art \<and> PMID m = Some pid
           \<and> ArticleTitle art = Some t \<and> article_of p = Some art
           \<and> authors_of p = dict_get (AuthorList art) []
           \<and> filter qualifies (authors_of p) \<noteq> []
           \<and> r = \<lparr>PubmedID = pid, Title = t,
                   Publication_Date = date_str (pub_date_of art),
                   Non_academic_Authors =
                     str_join ''; '' (map display_name (filter qualifies (authors_of p))),
                   Company_Affiliations =
                     str_join ''; '' (map segment_of (filter qualifies (authors_of p))),
                   Corresponding_Author_Email = email_of art\<rparr>"
  using assms
  by (auto simp: emitted_row_eq article_of_def authors_of_def split: option.splits if_splits)

lemma emitted_row_complete:
  "complete p \<Longrightarrow> (emitted_row p \<noteq> None \<longleftrightarrow> list_ex qualifies (authors_of p))"
  by (auto simp: emitted_row_eq complete_def article_of_def authors_of_def list_ex_iff
        filter_empty_conv split: option.splits)

lemma emitted_row_qualifies:
  "emitted_row p \<noteq> None \<Longrightarrow> list_ex qualifies (authors_of p)"
  by (auto simp: emitted_row_eq article_of_def authors_of_def list_ex_iff
        filter_empty_conv split: option.splits if_splits)

lemma emitted_row_incomplete:
  "\<not> complete p \<Longrightarrow> emitted_row p = None"
  by (auto simp: emitted_row_eq complete_def split: option.splits)

lemma paper_loop_rows:
  "fst (paper_loop self ps pid results w) = Inr rows
     \<Longrightarrow> rows = results @ List.map_filter emitted_row ps"
proof (induction ps arbitrary: pid results w)
  case Nil
  then show ?case by (simp add: List.map_filter_simps)
next
  case (Cons p ps)
  obtain assigned outcome where tb: "try_body p = (assigned, outcome)"
    by (cases "try_body p")
  show ?case
  proof (cases outcome)
    case (Inl e)
    with tb have "emitted_row p = None" by (simp add: emitted_row_def)
    with Cons.prems tb Inl Cons.IH show ?thesis
      by (auto simp: List.map_filter_simps split: option.splits)
  next
    case (Inr ro)
    show ?thesis
    proof (cases ro)
      case None
      with tb Inr have "emitted_row p = None" by (simp add: emitted_row_def)
      with Cons.prems tb Inr None Cons.IH show ?thesis
        by (auto simp: List.map_filter_simps)
    next
      case (Some r)
      with tb Inr have "emitted_row p = Some r" by (simp add: emitted_row_def)
      with Cons.prems tb Inr Some Cons.IH [of _ "results @ [r]"] show ?thesis
        by (auto simp: List.map_filter_simps)
    qed
  qed
qed

lemma paper_loop_returns:
  "pid \<noteq> None \<Longrightarrow> \<exists>rows. fst (paper_loop self ps pid results w) = Inr rows"
proof (induction ps arbitrary: pid results w)
  case Nil
  then show ?case by simp
next
  case (Cons p ps)
  obtain assigned outcome where tb: "try_body p = (assigned, outcome)"
    by (cases "try_body p")
  from Cons.prems have b: "(case assigned of None \<Rightarrow> pid | Some v \<Rightarrow> Some v) \<noteq> None"
    by (cases assigned) auto
  then obtain v where v: "(case assigned of None \<Rightarrow> pid | Some v \<Rightarrow> Some v) = Some v"
    by auto
  show ?case
    using tb v Cons.IH [of "Some v"]
    by (auto simp: Let_def split: sum.splits option.splits)
qed

lemma process_papers_rows_eq:
  assumes "fst (process_papers self papers w) = Inr rows"
    and "PubmedArticle papers = Some recs"
  shows "rows = List.map_filter emitted_row recs"
  using assms paper_loop_rows [of self recs None "[]" w rows]
  by (simp add: process_papers_def)


section \<open>Which records yield a row\<close>

text \<open>
  Claim C2, as stated, fails: a record with a qualifying author whose \<open>ArticleTitle\<close> is
  missing raises \<open>KeyError\<close> in the body, is skipped, and yields no row.
\<close>

theorem row_iff_qualifying_counterexample:
  "list_ex qualifies (authors_of ex_untitled)
   \<and> fst (process_papers ex_fetcher \<lparr>PubmedArticle = Some [ex_company, ex_untitled]\<rparr> ex_world)
       = Inr [ex_company_row]
   \<and> emitted_row ex_untitled = None"
  by code_simp

text \<open>
  Claim C2, amended. When the projector returns, its output is, in record order, the rows
  of the records whose body appended one. A record whose body appended a row has at least
  one qualifying author, so a record with no qualifying author never appears; a complete
  record (keys \<open>MedlineCitation\<close>, \<open>Article\<close>, \<open>PMID\<close> and \<open>ArticleTitle\<close> present) yields a
  row if and only if it has at least one qualifying author; and a record that is not
  complete yields no row, whatever its authors.
\<close>

theorem row_iff_qualifying:
  assumes "fst (process_papers self papers w) = Inr rows"
    and "PubmedArticle papers = Some recs"
  shows "rows = List.map_filter emitted_row recs
    \<and> (\<forall>p. emitted_row p \<noteq> None \<longrightarrow> list_ex qualifies (authors_of p))
    \<and> (\<forall>p. \<not> list_ex qualifies (authors_of p) \<longrightarrow> emitted_row p = None)
    \<and> (\<forall>p. complete p \<longrightarrow> (emitted_row p \<noteq> None \<longleftrightarrow> list_ex qualifies (authors_of p)))
    \<and> (\<forall>p. \<not> complete p \<longrightarrow> emitted_row p = None)"
  using process_papers_rows_eq [OF assms] emitted_row_qualifies emitted_row_complete
    emitted_row_incomplete
  by blast

theorem row_iff_qualifying_witness:
  "fst (process_papers ex_fetcher
          \<lparr>PubmedArticle = Some [ex_academic, ex_company, ex_untitled]\<rparr> ex_world)
     = Inr [ex_company_row]
   \<and> [ex_company_row] = List.map_filter emitted_row [ex_academic, ex_company, ex_untitled]
   \<and> complete ex_company \<and> list_ex qualifies (authors_of ex_company)
   \<and> emitted_row ex_company \<noteq> None
   \<and> \<not> list_ex qualifies (authors_of ex_academic) \<and> emitted_row ex_academic = None
   \<and> \<not> complete ex_untitled \<and> list_ex qualifies (authors_of ex_untitled)
   \<and> emitted_row ex_untitled = None"
proof -
  have h1: "fst (process_papers ex_fetcher
               \<lparr>PubmedArticle = Some [ex_academic, ex_company, ex_untitled]\<rparr> ex_world)
            = Inr [ex_company_row]"
    by code_simp
  have h2: "PubmedArticle \<lparr>PubmedArticle = Some [ex_academic, ex_company, ex_untitled]\<rparr>
            = Some [ex_academic, ex_company, ex_untitled]"
    by simp
  have h3: "complete ex_company" "list_ex qualifies (authors_of ex_company)"
    "\<not> list_ex qualifies (authors_of ex_academic)"
    "\<not> complete ex_untitled" "list_ex qualifies (authors_of ex_untitled)"
    by code_simp+
  from row_iff_qualifying [OF h1 h2] h1 h3 show ?thesis by blast
qed

section \<open>A failure in the first record\<close>

text \<open>
  Claim C3. An exception raised while one record is processed should be caught in the
  loop, with that record excluded and the next one processed. Here the first record has no
  \<open>Article\<close>: the body raises \<open>KeyError\<close> before \<open>pubmed_id\<close> is assigned, the handler raises
  \<open>UnboundLocalError\<close> while it builds its message, and the projection ends with that
  exception although the second record is well formed.
\<close>

theorem first_record_failure_escapes:
  "snd (try_body ex_no_article) = Inl (KeyError ''Article'')
   \<and> emitted_row ex_company = Some ex_company_row
   \<and> fst (process_papers ex_fetcher \<lparr>PubmedArticle = Some [ex_no_article, ex_company]\<rparr> ex_world)
       = Inl (UnboundLocalError ''pubmed_id'')"
  by code_simp

text \<open>
  Once a record has assigned \<open>pubmed_id\<close>, the loop returns whatever the later records
  raise (\<open>paper_loop_returns\<close>), and the message of a later failure names the last
  identifier assigned.
\<close>

lemma later_failure_example:
  "fst (process_papers ex_fetcher
          \<lparr>PubmedArticle = Some [ex_company, ex_no_article, ex_company]\<rparr> ex_world)
     = Inr [ex_company_row, ex_company_row]
   \<and> log_lines (snd (process_papers ex_fetcher
          \<lparr>PubmedArticle = Some [ex_company, ex_no_article, ex_company]\<rparr> ex_world))
     = [(DEBUG, ''Error processing paper 101: '' @ [CHR 0x27] @ ''Article'' @ [CHR 0x27])]"
  by code_simp

section \<open>The joined fields\<close>

text \<open>
  Claim C4, as stated, fails: the record has exactly two qualifying authors, and its
  affiliations field splits at the separator into three entries, because the leading
  segment of the first affiliation contains the separator.
\<close>

theorem two_entries_counterexample:
  "length (filter qualifies (authors_of ex_two)) = 2
   \<and> emitted_row ex_two = Some ex_two_row
   \<and> Company_Affiliations ex_two_row = ''Pfizer Inc; New York; Acme Corp''
   \<and> split_py ''; '' [] (Company_Affiliations ex_two_row)
       = [''Pfizer Inc'', ''New York'', ''Acme Corp'']"
  by code_simp

text \<open>
  Claim C4, amended. For a record with exactly two qualifying authors, the names field is
  the two display names and the affiliations field is the two leading segments, each pair
  joined by \<open>; \<close> in the order of the author list; a field splits at \<open>; \<close> into exactly
  those two entries when neither entry contains \<open>; \<close>.
\<close>

theorem two_entries:
  assumes "emitted_row p = Some r"
    and "filter qualifies (authors_of p) = [a1, a2]"
  shows "Non_academic_Authors r = display_name a1 @ ''; '' @ display_name a2
    \<and> Company_Affiliations r = segment_of a1 @ ''; '' @ segment_of a2
    \<and> (\<not> sublist ''; '' (display_name a1) \<and> \<not> sublist ''; '' (display_name a2) \<longrightarrow>
         split_py ''; '' [] (Non_academic_Authors r) = [display_name a1, display_name a2])
    \<and> (\<not> sublist ''; '' (segment_of a1) \<and> \<not> sublist ''; '' (segment_of a2) \<longrightarrow>
         split_py ''; '' [] (Company_Affiliations r) = [segment_of a1, segment_of a2])"
proof -
  from emitted_rowD [OF assms(1)] assms(2)
  have n: "Non_academic_Authors r = display_name a1 @ ''; '' @ display_name a2"
    and s: "Company_Affiliations r = segment_of a1 @ ''; '' @ segment_of a2"
    by auto
  have ne: "CHR '';'' \<noteq> CHR '' ''" by simp
  have "\<not> sublist ''; '' x \<Longrightarrow> \<not> sublist ''; '' y
          \<Longrightarrow> split_py ''; '' [] (x @ ''; '' @ y) = [x, y]" for x y
    using split_join_two [OF ne] by simp
  with n s show ?thesis by simp
qed

theorem two_entries_witness:
  "emitted_row ex_two = Some ex_two_row
   \<and> filter qualifies (authors_of ex_two)
       = [mk_author ''John'' ''Doe'' [''Pfizer Inc; New York, USA''],
          mk_author ''Jane'' ''Roe'' [''Acme Corp, Berlin'']]
   \<and> Non_academic_Authors ex_two_row = ''John Doe; Jane Roe''
   \<and> split_py ''; '' [] (Non_academic_Authors ex_two_row) = [''John Doe'', ''Jane Roe'']"
proof -
  have h1: "emitted_row ex_two = Some ex_two_row"
    by code_simp
  have h2: "filter qualifies (authors_of ex_two)
       = [mk_author ''John'' ''Doe'' [''Pfizer Inc; New York, USA''],
          mk_author ''Jane'' ''Roe'' [''Acme Corp, Berlin'']]"
    by code_simp
  have h3: "display_name (mk_author ''John'' ''Doe'' [''Pfizer Inc; New York, USA'']) = ''John Doe''"
    "display_name (mk_author ''Jane'' ''Roe'' [''Acme Corp, Berlin'']) = ''Jane Roe''"
    "\<not> sublist ''; '' ''John Doe''" "\<not> sublist ''; '' ''Jane Roe''"
    by code_simp+
  from two_entries [OF h1 h2] h1 h2 h3 show ?thesis by simp
qed

text \<open>
  Claim C8, as stated, fails: read off the fields of this row, the names field has one
  entry and the affiliations field has two, because the leading segment of the only
  qualifying author's affiliation contains the separator; the second affiliation entry
  belongs to no second author.
\<close>

theorem fields_in_lockstep_counterexample:
  "emitted_row ex_solo = Some ex_solo_row
   \<and> length (filter qualifies (authors_of ex_solo)) = 1
   \<and> split_py ''; '' [] (Non_academic_Authors ex_solo_row) = [''John Doe'']
   \<and> split_py ''; '' [] (Company_Affiliations ex_solo_row) = [''Pfizer Inc'', ''New York'']
   \<and> length (split_py ''; '' [] (Non_academic_Authors ex_solo_row))
       \<noteq> length (split_py ''; '' [] (Company_Affiliations ex_solo_row))"
  by code_simp

text \<open>
  Claim C8, amended. In every emitted row the names field is the display names and the
  affiliations field is the affiliation leading segments of the qualifying authors, in
  the order of the author list, each list joined by \<open>; \<close>: the two lists are built in
  lockstep and have the same length. When no such name and no such segment contains
  \<open>; \<close>, the fields split at \<open>; \<close> into exactly these lists, so the two fields have the
  same number of entries and the i-th affiliation entry belongs to the author of the i-th
  name entry.
\<close>

theorem fields_in_lockstep:
  assumes "emitted_row p = Some r"
  shows "Non_academic_Authors r
           = str_join ''; '' (map display_name (filter qualifies (authors_of p)))
    \<and> Company_Affiliations r
           = str_join ''; '' (map segment_of (filter qualifies (authors_of p)))
    \<and> length (map display_name (filter qualifies (authors_of p)))
           = length (map segment_of (filter qualifies (authors_of p)))
    \<and> ((\<forall>a \<in> set (filter qualifies (authors_of p)).
            \<not> sublist ''; '' (display_name a) \<and> \<not> sublist ''; '' (segment_of a)) \<longrightarrow>
          split_py ''; '' [] (Non_academic_Authors r)
            = map display_name (filter qualifies (authors_of p))
          \<and> split_py ''; '' [] (Company_Affiliations r)
            = map segment_of (filter qualifies (authors_of p))
          \<and> length (split_py ''; '' [] (Non_academic_Authors r))
            = length (split_py ''; '' [] (Company_Affiliations r))
          \<and> (\<forall>i < length (split_py ''; '' [] (Non_academic_Authors r)).
                split_py ''; '' [] (Non_academic_Authors r) ! i
                  = display_name (filter qualifies (authors_of p) ! i)
                \<and> split_py ''; '' [] (Company_Affiliations r) ! i
                  = segment_of (filter qualifies (authors_of p) ! i)))"
proof -
  let ?qs = "filter qualifies (authors_of p)"
  from emitted_rowD [OF assms]
  have n: "Non_academic_Authors r = str_join ''; '' (map display_name ?qs)"
    and s: "Company_Affiliations r = str_join ''; '' (map segment_of ?qs)"
    and ne: "?qs \<noteq> []"
    by auto
  have sep: "CHR '';'' \<noteq> CHR '' ''" by simp
  have rt: "split_py ''; '' [] (str_join ''; '' (map f ?qs)) = map f ?qs"
    if "\<forall>a \<in> set ?qs. \<not> sublist ''; '' (f a)" for f :: "author \<Rightarrow> string"
    using split_join [OF sep, of "map f ?qs"] ne that by simp
  show ?thesis
  proof (intro conjI impI)
    assume h: "\<forall>a \<in> set ?qs. \<not> sublist ''; '' (display_name a) \<and> \<not> sublist ''; '' (segment_of a)"
    then have bn: "split_py ''; '' [] (Non_academic_Authors r) = map display_name ?qs"
      and bs: "split_py ''; '' [] (Company_Affiliations r) = map segment_of ?qs"
      using rt [of display_name] rt [of segment_of] n s by simp_all
    show "split_py ''; '' [] (Non_academic_Authors r) = map display_name ?qs"
      by (rule bn)
    show "split_py ''; '' [] (Company_Affiliations r) = map segment_of ?qs"
      by (rule bs)
    show "length (split_py ''; '' [] (Non_academic_Authors r))
            = length (split_py ''; '' [] (Company_Affiliations r))"
      by (simp add: bn bs)
    show "\<forall>i < length (split_py ''; '' [] (Non_academic_Authors r)).
            split_py ''; '' [] (Non_academic_Authors r) ! i = display_name (?qs ! i)
            \<and> split_py ''; '' [] (Company_Affiliations r) ! i = segment_of (?qs ! i)"
      by (simp add: bn bs)
  qed (simp_all add: n s)
qed

theorem fields_in_lockstep_witness:
  "emitted_row ex_pair = Some ex_pair_row
   \<and> filter qualifies (authors_of ex_pair)
       = [mk_author ''Ann'' ''Lee'' [''Acme Corp, Berlin''],
          mk_author ''Bo'' ''Ray'' [''Beta Inc, Oslo'']]
   \<and> split_py ''; '' [] (Non_academic_Authors ex_pair_row) = [''Ann Lee'', ''Bo Ray'']
   \<and> split_py ''; '' [] (Company_Affiliations ex_pair_row) = [''Acme Corp'', ''Beta Inc'']"
proof -
  have h1: "emitted_row ex_pair = Some ex_pair_row"
    by code_simp
  have h2: "filter qualifies (authors_of ex_pair)
       = [mk_author ''Ann'' ''Lee'' [''Acme Corp, Berlin''],
          mk_author ''Bo'' ''Ray'' [''Beta Inc, Oslo'']]"
    by code_simp
  have h3: "display_name (mk_author ''Ann'' ''Lee'' [''Acme Corp, Berlin'']) = ''Ann Lee''"
    "display_name (mk_author ''Bo'' ''Ray'' [''Beta Inc, Oslo'']) = ''Bo Ray''"
    "segment_of (mk_author ''Ann'' ''Lee'' [''Acme Corp, Berlin'']) = ''Acme Corp''"
    "segment_of (mk_author ''Bo'' ''Ray'' [''Beta Inc, Oslo'']) = ''Beta Inc''"
    by code_simp+
  have h4: "\<not> sublist ''; '' ''Ann Lee''" "\<not> sublist ''; '' ''Bo Ray''"
    "\<not> sublist ''; '' ''Acme Corp''" "\<not> sublist ''; '' ''Beta Inc''"
    by code_simp+
  from fields_in_lockstep [OF h1] h1 h2 h3 h4 show ?thesis by simp
qed

section \<open>Authors without an affiliation entry\<close>

text \<open>
  Claim C9. An author whose affiliation list is missing or empty is skipped by the author
  loop wherever it stands in the list, and is not a qualifying author, although the
  classifier returns true for the empty string; a qualifying author has at least one
  affiliation entry.
\<close>

theorem no_affiliation_skipped:
  assumes "dict_get (AffiliationInfo a) [] = []"
  shows "author_loop (as1 @ a # as2) acc = author_loop (as1 @ as2) acc
    \<and> \<not> qualifies a
    \<and> is_company_affiliation ''''
    \<and> (\<forall>b. qualifies b \<longrightarrow> dict_get (AffiliationInfo b) [] \<noteq> [])"
proof -
  have nq: "\<not> qualifies a"
    using assms by (simp add: qualifies_def first_affiliation_def)
  have "author_loop (as1 @ a # as2) acc = author_loop (as1 @ as2) acc"
    using nq by (cases acc) (simp add: author_loop_eq)
  moreover have "is_company_affiliation ''''"
    by (simp add: is_company_affiliation_def str_lower_def academic_terms_def)
  moreover have "\<forall>b. qualifies b \<longrightarrow> dict_get (AffiliationInfo b) [] \<noteq> []"
    by (auto simp: qualifies_def first_affiliation_def)
  ultimately show ?thesis using nq by blast
qed

theorem no_affiliation_skipped_witness:
  "dict_get (AffiliationInfo (mk_author ''Eve'' ''Kim'' [])) [] = []
   \<and> author_loop ([mk_author ''Ann'' ''Lee'' [''Acme Corp, Berlin'']]
                    @ mk_author ''Eve'' ''Kim'' [] # []) ([], [])
       = Inr ([''Ann Lee''], [''Acme Corp''])
   \<and> \<not> qualifies (mk_author ''Eve'' ''Kim'' [])"
proof -
  have h1: "dict_get (AffiliationInfo (mk_author ''Eve'' ''Kim'' [])) [] = []"
    by code_simp
  have h2: "author_loop ([mk_author ''Ann'' ''Lee'' [''Acme Corp, Berlin'']] @ []) ([], [])
       = Inr ([''Ann Lee''], [''Acme Corp''])"
    by code_simp
  from no_affiliation_skipped [OF h1, of "[mk_author ''Ann'' ''Lee'' [''Acme Corp, Berlin'']]" "[]" "([], [])"]
    h1 h2 show ?thesis by simp
qed

section \<open>The email field\<close>

text \<open>
  Claim C5. The email field of an emitted row is the text of the last location identifier
  whose \<open>ValidYN\<close> attribute is \<open>Y\<close>, or the empty string when there is none (or no
  \<open>ELocationID\<close> key); in the loop, a valid entry replaces whatever came before it.
\<close>

theorem email_last_valid:
  assumes "emitted_row p = Some r" and "article_of p = Some art"
  shows "Corresponding_Author_Email r =
      (if filter valid_eloc (dict_get (ELocationID art) []) = [] then ''''
       else str_value (last (filter valid_eloc (dict_get (ELocationID art) []))))
    \<and> (\<forall>es e email. eloc_loop (es @ [e]) email
          = (if valid_eloc e then str_value e else eloc_loop es email))
    \<and> (\<forall>e. valid_eloc e \<longleftrightarrow> attributes e ''ValidYN'' = Some ''Y'')"
proof -
  from emitted_rowD [OF assms(1)] assms(2)
  have "Corresponding_Author_Email r = email_of art"
    by auto
  moreover have "email_of art =
      (if filter valid_eloc (dict_get (ELocationID art) []) = [] then ''''
       else str_value (last (filter valid_eloc (dict_get (ELocationID art) []))))"
    by (cases "ELocationID art") (simp_all add: email_of_def dict_get_def eloc_loop_eq)
  moreover have "\<forall>e. valid_eloc e \<longleftrightarrow> attributes e ''ValidYN'' = Some ''Y''"
    by (auto simp: valid_eloc_def split: option.splits)
  ultimately show ?thesis
    by (simp add: eloc_loop_snoc)
qed

theorem email_last_valid_witness:
  "emitted_row ex_company = Some ex_company_row
   \<and> Corresponding_Author_Email ex_company_row = ''10.1/c''
   \<and> (\<exists>art. article_of ex_company = Some art
        \<and> map str_value (filter valid_eloc (dict_get (ELocationID art) []))
            = [''10.1/a'', ''10.1/c''])"
proof -
  have h1: "emitted_row ex_company = Some ex_company_row"
    by code_simp
  obtain art where h2: "article_of ex_company = Some art"
    by (simp add: article_of_def ex_company_def mk_paper_def)
  have h3: "map str_value (filter valid_eloc (dict_get (ELocationID (the (article_of ex_company))) []))
            = [''10.1/a'', ''10.1/c'']"
    by code_simp
  from email_last_valid [OF h1 h2] h1 h2 h3 show ?thesis
    by (auto simp: ex_company_row_def)
qed

section \<open>The publication date\<close>

text \<open>
  Claim C10. The date string of an emitted row is the year, month and day of the record's
  publication date (the \<open>PubDate\<close> of the \<open>JournalIssue\<close> of the article's \<open>Journal\<close>) joined
  by hyphens, where a missing month or day reads \<open>01\<close> and a missing year reads as the empty
  string; with no date part at all, or with no \<open>Journal\<close>, \<open>JournalIssue\<close> or \<open>PubDate\<close>,
  the string is \<open>-01-01\<close>.
\<close>

theorem date_string_defaults:
  assumes "emitted_row p = Some r" and "article_of p = Some art"
  shows "(\<forall>j ji pd. Journal art = Some j \<and> JournalIssue j = Some ji \<and> PubDate ji = Some pd \<longrightarrow>
            Publication_Date r =
              (case Year pd of None \<Rightarrow> '''' | Some y \<Rightarrow> y) @ ''-''
               @ (case Month pd of None \<Rightarrow> ''01'' | Some m \<Rightarrow> m) @ ''-''
               @ (case Day pd of None \<Rightarrow> ''01'' | Some d \<Rightarrow> d)
            \<and> (Year pd = None \<and> Month pd = None \<and> Day pd = None \<longrightarrow>
                 Publication_Date r = ''-01-01''))
    \<and> (Journal art = None \<longrightarrow> Publication_Date r = ''-01-01'')
    \<and> (\<forall>j. Journal art = Some j \<and> JournalIssue j = None \<longrightarrow>
          Publication_Date r = ''-01-01'')
    \<and> (\<forall>j ji. Journal art = Some j \<and> JournalIssue j = Some ji \<and> PubDate ji = None \<longrightarrow>
          Publication_Date r = ''-01-01'')
    \<and> Publication_Date r =
        (case Year (pub_date_of art) of None \<Rightarrow> '''' | Some y \<Rightarrow> y) @ ''-''
         @ (case Month (pub_date_of art) of None \<Rightarrow> ''01'' | Some m \<Rightarrow> m) @ ''-''
         @ (case Day (pub_date_of art) of None \<Rightarrow> ''01'' | Some d \<Rightarrow> d)"
proof -
  from emitted_rowD [OF assms(1)] assms(2)
  have "Publication_Date r = date_str (pub_date_of art)"
    by auto
  then show ?thesis
    by (auto simp: date_str_def dict_get_def pub_date_of_def split: option.splits)
qed

theorem date_string_defaults_witness:
  "emitted_row ex_dated = Some ex_dated_row
   \<and> article_of ex_dated = Some ex_dated_article
   \<and> Journal ex_dated_article = Some \<lparr>JournalIssue = Some \<lparr>PubDate = Some ex_dated_pub_date\<rparr>\<rparr>
   \<and> Year ex_dated_pub_date = Some ''2021'' \<and> Month ex_dated_pub_date = Some ''Mar''
   \<and> Day ex_dated_pub_date = None
   \<and> Publication_Date ex_dated_row = ''2021'' @ ''-'' @ ''Mar'' @ ''-'' @ ''01''"
proof -
  have h1: "emitted_row ex_dated = Some ex_dated_row"
    by code_simp
  have h2: "article_of ex_dated = Some ex_dated_article"
    by (simp add: article_of_def ex_dated_def)
  have h3: "Journal ex_dated_article
              = Some \<lparr>JournalIssue = Some \<lparr>PubDate = Some ex_dated_pub_date\<rparr>\<rparr>"
    by (simp add: ex_dated_article_def)
  have h4: "Year ex_dated_pub_date = Some ''2021''" "Month ex_dated_pub_date = Some ''Mar''"
    "Day ex_dated_pub_date = None"
    by (simp_all add: ex_dated_pub_date_def)
  from date_string_defaults [OF h1 h2] h3 h4
  have "Publication_Date ex_dated_row = ''2021'' @ ''-'' @ ''Mar'' @ ''-'' @ ''01''"
    by simp
  with h1 h2 h3 h4 show ?thesis by simp
qed

section \<open>The sink on an empty result list\<close>

text \<open>
  Claim C6. Given an empty result list, the sink returns without opening a file and
  without printing: the files and the console output are as before, whether or not a
  target path is given. Its only effect is one line in the log.
\<close>

theorem save_to_csv_empty:
  "fst (save_to_csv csv_text [] filename w) = Inr ()
   \<and> files (snd (save_to_csv csv_text [] filename w)) = files w
   \<and> stdout (snd (save_to_csv csv_text [] filename w)) = stdout w
   \<and> writable (snd (save_to_csv csv_text [] filename w)) = writable w
   \<and> log_lines (snd (save_to_csv csv_text [] filename w))
       = log_lines w @ [(INFO, ''No results to save'')]"
  by (simp add: save_to_csv_def logging_info_def)

theorem save_to_csv_empty_witness:
  "files (snd (save_to_csv (\<lambda>h rs. []) [] (Some ''out.csv'') ex_world)) ''out.csv'' = None
   \<and> stdout (snd (save_to_csv (\<lambda>h rs. []) [] None ex_world)) = []
   \<and> files (snd (save_to_csv (\<lambda>h rs. []) [ex_company_row] (Some ''out.csv'') ex_world))
       ''out.csv'' = Some []"
proof -
  have "files (snd (save_to_csv (\<lambda>h rs. []) [ex_company_row] (Some ''out.csv'') ex_world))
       ''out.csv'' = Some []"
    by (simp add: save_to_csv_def logging_info_def ex_world_def Let_def)
  then show ?thesis
    using save_to_csv_empty [of "\<lambda>h rs. []" "Some ''out.csv''" ex_world]
      save_to_csv_empty [of "\<lambda>h rs. []" None ex_world]
    by (simp add: ex_world_def)
qed

section \<open>The pipeline\<close>




subsection \<open>The number of rows\<close>



end
